theory Spec2Isabelle
  imports Main "HOL-Library.Word" "HOL-Library.Multiset" "HOL-Library.Sublist"
begin

section \<open>The utilities of tfjs-backend-wasm/src/util.h\<close>

text \<open>
  The header defines two functions in namespace \<open>tfjs::util\<close>: \<open>size_from_shape\<close>, the
  number of elements of a tensor of a given shape, and \<open>log_vector\<close>, a debugging
  printer.

  The backend is compiled to WebAssembly (wasm32), where the C++ type \<open>int\<close> has 32 bits
  and a multiplication of two \<open>int\<close>s is the instruction \<open>i32.mul\<close>, which keeps the low
  32 bits of the product. An \<open>int\<close> is therefore a \<open>32 word\<close>: \<open>*\<close> wraps around and
  \<open>sint\<close> reads the two's-complement value. (The C++ standard itself leaves a signed
  overflow undefined; the model is of the compiled code.)
\<close>

type_synonym int32 = "32 word"

subsection \<open>size_from_shape\<close>

text \<open>
  \<^verbatim>\<open>
  inline int size_from_shape(const std::vector<int>& shape) {
    int prod = 1;
    for (const auto& v : shape) {
      prod *= v;
    }
    return prod;
  }
  \<close>
  The range-based loop is a recursion over the vector that carries the accumulator
  \<open>prod\<close>, written \<open>acc\<close> here.
\<close>

fun size_from_shape_loop :: "int32 \<Rightarrow> int32 list \<Rightarrow> int32" where
  "size_from_shape_loop acc [] = acc"
| "size_from_shape_loop acc (v # rest) = size_from_shape_loop (acc * v) rest"

definition size_from_shape :: "int32 list \<Rightarrow> int32" where
  "size_from_shape shape = size_from_shape_loop 1 shape"

text \<open>The exact product of the extents, over the unbounded integers.\<close>

definition exact_product :: "int32 list \<Rightarrow> int" where
  "exact_product shape = prod_list (map sint shape)"

text \<open>The values an \<open>int\<close> can hold.\<close>

definition int_representable :: "int \<Rightarrow> bool" where
  "int_representable k = (- (2 ^ 31) \<le> k \<and> k < 2 ^ 31)"

subsection \<open>log_vector\<close>

text \<open>
  \<^verbatim>\<open>
  template <class T>
  inline void log_vector(const std::vector<T>& v) {
    printf("[");
    for (auto const& value : v) {
      printf("%d,", value);
    }
    printf("]\n");
  }
  \<close>
  The only effect is on the standard output stream, which the model passes explicitly
  as the text written so far; every \<open>printf\<close> appends its text to it.

  \<open>printf\<close> belongs to the C library. Its conversion \<open>%d\<close> writes a signed decimal
  number: a minus sign for a negative value, then the digits of the magnitude, most
  significant first, without leading zeros and at least one digit.
\<close>

type_synonym stream = string

definition digit_char :: "nat \<Rightarrow> char" where
  "digit_char d = ''0123456789'' ! (d mod 10)"

fun dec_nat :: "nat \<Rightarrow> string" where
  "dec_nat n = (if n < 10 then [digit_char n] else dec_nat (n div 10) @ [digit_char n])"

declare dec_nat.simps [simp del]

definition dec_int :: "int \<Rightarrow> string" where
  "dec_int k = (if k < 0 then CHR ''-'' # dec_nat (nat (- k)) else dec_nat (nat k))"

text \<open>
  Reading a decimal text: the number that a sequence of digits denotes, and the integer
  that an optional minus sign followed by digits denotes. They say what it means for a
  text to be the decimal representation of a value.
\<close>

definition read_nat :: "string \<Rightarrow> nat" where
  "read_nat s = foldl (\<lambda>a c. 10 * a + (of_char c - 48)) 0 s"

definition read_int :: "string \<Rightarrow> int" where
  "read_int s =
     (case s of
        [] \<Rightarrow> 0
      | c # cs \<Rightarrow> if c = CHR ''-'' then - int (read_nat cs) else int (read_nat s))"

text \<open>
  The function is a template over the element type \<open>T\<close>, and every element is handed
  to \<open>printf\<close> through the variable argument list, from which \<open>%d\<close> takes an \<open>int\<close>.
  An element type is described by the integer that an element denotes (\<open>value_of\<close>) and
  by the \<open>int\<close> that \<open>%d\<close> takes when the element is the argument (\<open>va_arg_int\<close>).
  For \<open>T = int\<close> that is the element itself. An \<open>unsigned int\<close> occupies the same 32
  bits in the argument list, and \<open>%d\<close> reads them in two's complement.
\<close>

record 'a elem_type =
  value_of :: "'a \<Rightarrow> int"
  va_arg_int :: "'a \<Rightarrow> int32"

definition T_int :: "int32 elem_type" where
  "T_int = \<lparr>value_of = sint, va_arg_int = (\<lambda>x. x)\<rparr>"

definition T_unsigned :: "32 word elem_type" where
  "T_unsigned = \<lparr>value_of = uint, va_arg_int = (\<lambda>x. x)\<rparr>"

text \<open>
  \<open>printf(s)\<close> for a format \<open>s\<close> without conversions, the text of \<open>"%d,"\<close> for an
  element, and \<open>printf("%d,", value)\<close>.
\<close>

definition printf_text :: "string \<Rightarrow> stream \<Rightarrow> stream" where
  "printf_text s out = out @ s"

definition d_comma_text :: "'a elem_type \<Rightarrow> 'a \<Rightarrow> string" where
  "d_comma_text T x = dec_int (sint (va_arg_int T x)) @ '',''"

definition printf_d_comma :: "'a elem_type \<Rightarrow> 'a \<Rightarrow> stream \<Rightarrow> stream" where
  "printf_d_comma T x out = printf_text (d_comma_text T x) out"

fun log_vector_loop :: "'a elem_type \<Rightarrow> 'a list \<Rightarrow> stream \<Rightarrow> stream" where
  "log_vector_loop T [] out = out"
| "log_vector_loop T (x # rest) out = log_vector_loop T rest (printf_d_comma T x out)"

definition log_vector :: "'a elem_type \<Rightarrow> 'a list \<Rightarrow> stream \<Rightarrow> stream" where
  "log_vector T v out =
     printf_text ('']'' @ [CHR 0x0A]) (log_vector_loop T v (printf_text ''['' out))"

subsection \<open>Concurrent calls of log_vector\<close>

text \<open>
  One call of \<open>log_vector\<close> writes its line with \<open>length v + 2\<close> calls of \<open>printf\<close> and
  takes no lock around them. \<open>log_vector_writes\<close> is the sequence of the texts of these
  calls, in program order, and \<open>run_writes\<close> performs a sequence of writes on the stream.

  The C library locks the stream for the duration of one \<open>printf\<close> call, so a single
  write is atomic. When two threads call \<open>log_vector\<close> at the same time, the writes of
  each thread happen in its program order and the scheduler decides which thread writes
  next: the sequence of writes performed is an interleaving (\<open>shuffles\<close>) of the two
  calls' sequences.
\<close>

definition log_vector_writes :: "'a elem_type \<Rightarrow> 'a list \<Rightarrow> string list" where
  "log_vector_writes T v = ''['' # map (d_comma_text T) v @ ['']'' @ [CHR 0x0A]]"

definition run_writes :: "stream \<Rightarrow> string list \<Rightarrow> stream" where
  "run_writes out ws = foldl (\<lambda>s w. printf_text w s) out ws"

section \<open>Properties of size_from_shape\<close>

lemma size_from_shape_loop_foldl:
  "size_from_shape_loop acc shape = foldl (*) acc shape"
  by (induction shape arbitrary: acc) simp_all

lemma size_from_shape_loop_prod_list:
  "size_from_shape_loop acc shape = acc * prod_list shape"
  by (induction shape arbitrary: acc) (simp_all add: mult.assoc)

lemma size_from_shape_prod_list: "size_from_shape shape = prod_list shape"
  by (simp add: size_from_shape_def size_from_shape_loop_prod_list)

text \<open>
  C2. The empty shape, the shape of a scalar, has exactly one element:
  \<open>size_from_shape\<close> of the empty vector is 1.
\<close>

theorem size_from_shape_empty: "size_from_shape [] = 1"
  by (simp add: size_from_shape_def)

text \<open>
  C9. \<open>size_from_shape\<close> is multiplicative over concatenation, in the 32-bit arithmetic
  of the accumulator: the size of \<open>s1 @ s2\<close> is the product of the sizes of \<open>s1\<close> and
  \<open>s2\<close>.
\<close>

theorem size_from_shape_append:
  "size_from_shape (s1 @ s2) = size_from_shape s1 * size_from_shape s2"
  by (simp add: size_from_shape_prod_list)

text \<open>
  The accumulator holds the exact product of the extents seen so far, reduced to 32
  bits: the loop computes the image of the exact product in the ring of 32-bit words.
\<close>

lemma size_from_shape_word_of_int:
  "size_from_shape shape = word_of_int (exact_product shape)"
  unfolding size_from_shape_prod_list exact_product_def
  by (induction shape) simp_all

lemma sint_size_from_shape:
  "sint (size_from_shape shape) = signed_take_bit 31 (exact_product shape)"
  by (simp add: size_from_shape_word_of_int sint_sbintrunc')

lemma uint_size_from_shape:
  "uint (size_from_shape shape) = exact_product shape mod 2 ^ 32"
  by (simp add: size_from_shape_word_of_int uint_word_of_int)

lemma signed_take_bit_31_self_iff:
  "signed_take_bit 31 k = k \<longleftrightarrow> int_representable k"
  by (simp add: int_representable_def signed_take_bit_int_eq_self_iff)

lemma prod_list_zero_extent: "0 \<in> set shape \<Longrightarrow> prod_list shape = (0 :: int32)"
  by (induction shape) auto

text \<open>
  C1, as the code has it. For every shape, \<open>size_from_shape\<close> returns the product of
  the extents accumulated from left to right starting from 1 in 32-bit arithmetic, and
  whenever the exact product of the extents is a value that an \<open>int\<close> can hold, the
  result is that exact product.
\<close>

theorem size_from_shape_product:
  assumes "int_representable (exact_product shape)"
  shows "size_from_shape shape = foldl (*) 1 shape
    \<and> sint (size_from_shape shape) = exact_product shape"
proof
  show "size_from_shape shape = foldl (*) 1 shape"
    by (simp add: size_from_shape_def size_from_shape_loop_foldl)
  from assms show "sint (size_from_shape shape) = exact_product shape"
    by (simp add: sint_size_from_shape signed_take_bit_31_self_iff)
qed

text \<open>The shape \<open>[2, 3, 4]\<close> has 24 elements.\<close>

theorem size_from_shape_product_witness:
  "int_representable (exact_product [2, 3, 4])
   \<and> size_from_shape [2, 3, 4] = foldl (*) 1 [2, 3, 4]
   \<and> sint (size_from_shape [2, 3, 4]) = 24"
proof -
  have h: "int_representable (exact_product [2, 3, 4])"
    by (simp add: int_representable_def exact_product_def)
  show ?thesis
    using h size_from_shape_product [OF h] by (simp add: exact_product_def)
qed

text \<open>
  Without the condition on the exact product the result is not the arithmetic product:
  the shape \<open>[65536, 65536]\<close> has the exact product \<open>2 ^ 32\<close>, and the function
  returns 0.
\<close>

theorem size_from_shape_product_counterexample:
  "sint (size_from_shape [65536, 65536]) = 0
   \<and> exact_product [65536, 65536] = 4294967296
   \<and> sint (size_from_shape [65536, 65536]) \<noteq> exact_product [65536, 65536]"
  by (simp add: size_from_shape_def exact_product_def)

text \<open>
  C3. The accumulator is a 32-bit \<open>int\<close> and nothing guards the multiplication: for every
  shape whose exact product is outside the range of \<open>int\<close>, the value returned is the
  exact product reduced modulo \<open>2 ^ 32\<close>, read in two's complement. It is not the exact
  product (no wider accumulator), and the function has no other outcome.
\<close>

theorem size_from_shape_overflow_wraps:
  assumes "\<not> int_representable (exact_product shape)"
  shows "size_from_shape shape = word_of_int (exact_product shape)
    \<and> uint (size_from_shape shape) = exact_product shape mod 2 ^ 32
    \<and> sint (size_from_shape shape) = signed_take_bit 31 (exact_product shape)
    \<and> sint (size_from_shape shape) \<noteq> exact_product shape"
proof (intro conjI)
  show "size_from_shape shape = word_of_int (exact_product shape)"
    by (rule size_from_shape_word_of_int)
  show "uint (size_from_shape shape) = exact_product shape mod 2 ^ 32"
    by (rule uint_size_from_shape)
  show "sint (size_from_shape shape) = signed_take_bit 31 (exact_product shape)"
    by (rule sint_size_from_shape)
  from assms show "sint (size_from_shape shape) \<noteq> exact_product shape"
    by (simp add: sint_size_from_shape signed_take_bit_31_self_iff)
qed

text \<open>
  The shape \<open>[100000, 100000]\<close> has \<open>10 ^ 10\<close> elements; the function returns
  \<open>10 ^ 10 mod 2 ^ 32 = 1410065408\<close>, not the largest \<open>int\<close>.
\<close>

theorem size_from_shape_overflow_wraps_witness:
  "\<not> int_representable (exact_product [100000, 100000])
   \<and> exact_product [100000, 100000] = 10000000000
   \<and> uint (size_from_shape [100000, 100000]) = 10000000000 mod 2 ^ 32
   \<and> sint (size_from_shape [100000, 100000]) = 1410065408
   \<and> sint (size_from_shape [100000, 100000]) \<noteq> 2147483647"
proof -
  have h: "\<not> int_representable (exact_product [100000, 100000])"
    by (simp add: int_representable_def exact_product_def)
  show ?thesis
    using h size_from_shape_overflow_wraps [OF h] by (simp add: exact_product_def)
qed

text \<open>
  C5. A shape with an extent equal to 0, at any position and whatever the other extents
  are, has size 0.
\<close>

theorem size_from_shape_zero_extent:
  "0 \<in> set shape \<Longrightarrow> size_from_shape shape = 0"
  by (simp add: size_from_shape_prod_list prod_list_zero_extent)

text \<open>
  The zero may come last, after the accumulator has already wrapped around, or among
  negative extents.
\<close>

theorem size_from_shape_zero_extent_witness:
  "0 \<in> set [0, 3, 4 :: int32] \<and> size_from_shape [0, 3, 4] = 0
   \<and> 0 \<in> set [100000, 100000, - 7, 0 :: int32]
   \<and> size_from_shape [100000, 100000, - 7, 0] = 0"
  using size_from_shape_zero_extent [of "[0, 3, 4]"]
    size_from_shape_zero_extent [of "[100000, 100000, - 7, 0]"]
  by simp

text \<open>
  The function does not look at the sign of an extent. One negative extent gives a
  negative size, two give a positive one, and the most negative \<open>int\<close> times \<open>- 1\<close> is
  the most negative \<open>int\<close> again.
\<close>

lemma size_from_shape_negative_examples:
  "sint (size_from_shape [- 2, 3]) = - 6"
  "sint (size_from_shape [- 2, - 3]) = 6"
  "sint (size_from_shape [- 2147483648, - 1]) = - 2147483648"
  by (simp_all add: size_from_shape_def)

text \<open>
  C7. The size does not depend on the order of the extents: two shapes that are
  permutations of each other (that have the same multiset of extents) have the same
  size.
\<close>

theorem size_from_shape_permutation:
  assumes "mset s = mset s'"
  shows "size_from_shape s = size_from_shape s'"
proof -
  have "prod_list s = prod_mset (mset s)"
    by (simp add: prod_mset_prod_list)
  also have "\<dots> = prod_mset (mset s')"
    by (simp add: assms)
  also have "\<dots> = prod_list s'"
    by (simp add: prod_mset_prod_list)
  finally show ?thesis
    by (simp add: size_from_shape_prod_list)
qed

text \<open>Three orders of the extents 2, 3 and 4.\<close>

theorem size_from_shape_permutation_witness:
  "mset [2, 3, 4 :: int32] = mset [4, 2, 3]
   \<and> size_from_shape [2, 3, 4] = size_from_shape [4, 2, 3]
   \<and> size_from_shape [4, 2, 3] = 24"
proof -
  have h: "mset [2, 3, 4 :: int32] = mset [4, 2, 3]" by simp
  show ?thesis
    using h size_from_shape_permutation [OF h] by (simp add: size_from_shape_def)
qed

section \<open>Properties of log_vector\<close>

text \<open>The loop appends the text of \<open>"%d,"\<close> for every element, in order.\<close>

lemma log_vector_loop_concat:
  "log_vector_loop T v out = out @ concat (map (d_comma_text T) v)"
  by (induction v arbitrary: out) (simp_all add: printf_d_comma_def printf_text_def)

lemma log_vector_text:
  "log_vector T v out = out @ ''['' @ concat (map (d_comma_text T) v) @ '']'' @ [CHR 0x0A]"
  by (simp add: log_vector_def printf_text_def log_vector_loop_concat)

text \<open>
  The text that \<open>dec_int\<close> writes is the decimal representation of the number: reading
  it back gives the number again, with its sign.
\<close>

lemma digit_table_value:
  assumes "m < 10"
  shows "of_char (''0123456789'' ! m) = (48 :: nat) + m"
proof -
  from assms have "m = 0 \<or> m = 1 \<or> m = 2 \<or> m = 3 \<or> m = 4
      \<or> m = 5 \<or> m = 6 \<or> m = 7 \<or> m = 8 \<or> m = 9"
    by presburger
  then show ?thesis
    by (elim disjE) simp_all
qed

lemma digit_char_value: "of_char (digit_char d) = 48 + d mod 10"
  by (simp add: digit_char_def digit_table_value)

lemma dec_nat_nonempty: "dec_nat n \<noteq> []"
  by (subst dec_nat.simps) simp

lemma read_nat_snoc: "read_nat (s @ [c]) = 10 * read_nat s + (of_char c - 48)"
  by (simp add: read_nat_def)

lemma read_nat_dec_nat: "read_nat (dec_nat n) = n"
proof (induction n rule: dec_nat.induct)
  case (1 n)
  show ?case
  proof (cases "n < 10")
    case True
    then show ?thesis
      by (subst dec_nat.simps) (simp add: read_nat_def digit_char_value)
  next
    case False
    with 1 show ?thesis
      by (subst dec_nat.simps) (simp add: read_nat_snoc digit_char_value)
  qed
qed

lemma digit_char_in_table: "digit_char d \<in> set ''0123456789''"
  unfolding digit_char_def by (rule nth_mem) simp

lemma digit_char_not_newline: "digit_char d \<noteq> CHR 0x0A"
  using digit_char_in_table [of d] by auto

lemma digit_char_not_minus: "digit_char d \<noteq> CHR ''-''"
  using digit_char_in_table [of d] by auto

lemma dec_nat_no_minus: "CHR ''-'' \<notin> set (dec_nat n)"
proof (induction n rule: dec_nat.induct)
  case (1 n)
  then show ?case
    using digit_char_not_minus [of n] by (subst dec_nat.simps) auto
qed

lemma read_int_dec_nat: "read_int (dec_nat n) = int n"
proof (cases "dec_nat n")
  case Nil
  then show ?thesis
    by (simp add: dec_nat_nonempty)
next
  case (Cons c cs)
  with dec_nat_no_minus [of n] have "c \<noteq> CHR ''-''"
    by auto
  with Cons read_nat_dec_nat [of n] show ?thesis
    by (simp add: read_int_def)
qed

lemma read_int_dec_int: "read_int (dec_int k) = k"
proof (cases "k < 0")
  case True
  then show ?thesis
    by (simp add: dec_int_def read_int_def read_nat_dec_nat)
next
  case False
  then show ?thesis
    by (simp add: dec_int_def read_int_dec_nat)
qed

text \<open>No decimal text contains a line terminator.\<close>

lemma dec_nat_no_newline: "CHR 0x0A \<notin> set (dec_nat n)"
proof (induction n rule: dec_nat.induct)
  case (1 n)
  then show ?case
    using digit_char_not_newline [of n] by (subst dec_nat.simps) auto
qed

lemma dec_int_no_newline: "CHR 0x0A \<notin> set (dec_int k)"
  by (simp add: dec_int_def dec_nat_no_newline)

lemma count_list_absent: "x \<notin> set xs \<Longrightarrow> count_list xs x = 0"
  by (simp add: count_list_0_iff)

lemma d_comma_text_no_newline: "count_list (d_comma_text T x) (CHR 0x0A) = 0"
  by (simp add: d_comma_text_def count_list_absent dec_int_no_newline)

lemma elements_no_newline:
  "count_list (concat (map (d_comma_text T) v)) (CHR 0x0A) = 0"
  by (induction v) (simp_all add: d_comma_text_no_newline)

text \<open>
  C4, as the code has it. For every vector of \<open>int\<close>s (element type \<open>T = int\<close>),
  \<open>log_vector\<close> appends to the output stream an opening bracket, the decimal text of
  each element's value followed by a comma (also after the last element), a closing
  bracket and a line terminator. The decimal text of a value reads back as that value.
  The text written holds exactly one line terminator, its last character, so it is one
  line. The empty vector is written as \<open>[]\<close>, the vector 1, 2, 3 as \<open>[1,2,3,]\<close> and
  the vector -5, 0, 42 as \<open>[-5,0,42,]\<close>, each followed by the line terminator.
\<close>

theorem log_vector_format:
  "log_vector T_int v out =
     out @ ''['' @ concat (map (\<lambda>x. dec_int (value_of T_int x) @ '','') v)
       @ '']'' @ [CHR 0x0A]
   \<and> read_int (dec_int (value_of T_int x)) = value_of T_int x
   \<and> count_list
       (''['' @ concat (map (\<lambda>x. dec_int (value_of T_int x) @ '','') v)
          @ '']'' @ [CHR 0x0A])
       (CHR 0x0A) = 1
   \<and> log_vector T_int [] [] = ''[]'' @ [CHR 0x0A]
   \<and> log_vector T_int [1, 2, 3] [] = ''[1,2,3,]'' @ [CHR 0x0A]
   \<and> log_vector T_int [- 5, 0, 42] [] = ''[-5,0,42,]'' @ [CHR 0x0A]"
proof (intro conjI)
  have text_int: "d_comma_text T_int = (\<lambda>x. dec_int (value_of T_int x) @ '','')"
    by (rule ext) (simp add: d_comma_text_def T_int_def)
  show "log_vector T_int v out =
      out @ ''['' @ concat (map (\<lambda>x. dec_int (value_of T_int x) @ '','') v)
        @ '']'' @ [CHR 0x0A]"
    by (simp add: log_vector_text text_int)
  show "read_int (dec_int (value_of T_int x)) = value_of T_int x"
    by (rule read_int_dec_int)
  show "count_list
      (''['' @ concat (map (\<lambda>x. dec_int (value_of T_int x) @ '','') v)
         @ '']'' @ [CHR 0x0A])
      (CHR 0x0A) = 1"
    using elements_no_newline [of T_int v] by (simp add: text_int)
  show "log_vector T_int [] [] = ''[]'' @ [CHR 0x0A]"
    by (simp add: log_vector_text)
  show "log_vector T_int [1, 2, 3] [] = ''[1,2,3,]'' @ [CHR 0x0A]"
    by (simp add: log_vector_text d_comma_text_def T_int_def dec_int_def
        digit_char_def dec_nat.simps)
  show "log_vector T_int [- 5, 0, 42] [] = ''[-5,0,42,]'' @ [CHR 0x0A]"
    by (simp add: log_vector_text d_comma_text_def T_int_def dec_int_def
        digit_char_def dec_nat.simps)
qed

text \<open>
  For other integer element types the text written is not always the decimal
  representation of the value: the \<open>unsigned int\<close> 4294967295 is written as \<open>-1\<close>.
\<close>

theorem log_vector_format_counterexample:
  "value_of T_unsigned 4294967295 = 4294967295
   \<and> dec_int (value_of T_unsigned 4294967295) = ''4294967295''
   \<and> log_vector T_unsigned [4294967295] [] = ''[-1,]'' @ [CHR 0x0A]
   \<and> log_vector T_unsigned [4294967295] []
       \<noteq> ''['' @ dec_int (value_of T_unsigned 4294967295) @ '','' @ '']'' @ [CHR 0x0A]"
  by (simp add: log_vector_text d_comma_text_def T_unsigned_def dec_int_def
      digit_char_def dec_nat.simps)

section \<open>Concurrent calls of log_vector\<close>

text \<open>Performing the writes of one call, in order, is the call.\<close>

lemma run_writes_concat: "run_writes out ws = out @ concat ws"
  unfolding run_writes_def
  by (induction ws arbitrary: out) (simp_all add: printf_text_def)

lemma run_log_vector_writes: "run_writes out (log_vector_writes T v) = log_vector T v out"
  by (simp add: run_writes_concat log_vector_writes_def log_vector_text)

lemma concat_log_vector_writes:
  "concat (log_vector_writes T v) = log_vector T v []"
  using run_log_vector_writes [of "[]" T v] by (simp add: run_writes_concat)

text \<open>
  When the scheduler lets the first call finish before the second starts, the two lines
  follow each other.
\<close>

lemma sequential_in_shuffles: "xs @ ys \<in> shuffles xs ys"
  by (induction xs) (simp_all add: Cons_in_shuffles_leftI)

lemma run_writes_sequential:
  "run_writes out (log_vector_writes T v1 @ log_vector_writes T v2) =
     log_vector T v2 (log_vector T v1 out)"
  by (simp add: run_writes_concat log_vector_writes_def log_vector_text)

text \<open>An interleaving keeps the writes of each call in their order and adds none.\<close>

lemma shuffles_subseq_left: "zs \<in> shuffles xs ys \<Longrightarrow> subseq xs zs"
  by (induction xs ys arbitrary: zs rule: shuffles.induct) auto

lemma shuffles_subseq_right: "zs \<in> shuffles xs ys \<Longrightarrow> subseq ys zs"
  by (induction xs ys arbitrary: zs rule: shuffles.induct) auto

lemma shuffles_count_concat:
  "zs \<in> shuffles xs ys \<Longrightarrow>
     count_list (concat zs) c = count_list (concat xs) c + count_list (concat ys) c"
  by (induction xs ys arbitrary: zs rule: shuffles.induct) auto

lemma log_vector_writes_newline:
  "count_list (concat (log_vector_writes T v)) (CHR 0x0A) = 1"
  by (simp add: log_vector_writes_def elements_no_newline)

text \<open>
  C10, as the code has it. When two calls of \<open>log_vector\<close> run concurrently, only the
  text of a single \<open>printf\<close> call is written atomically: the text added to the stream
  is the concatenation of the two calls' \<open>printf\<close> texts (the opening bracket, each
  element with its comma, the closing bracket with the line terminator) in an
  interleaving that keeps the order of each call's writes, and it holds one line
  terminator for each call. The line of a call as a whole is not written atomically.
\<close>

theorem log_vector_concurrent_writes:
  assumes "zs \<in> shuffles (log_vector_writes T v1) (log_vector_writes T v2)"
  shows "run_writes out zs = out @ concat zs
    \<and> subseq (log_vector_writes T v1) zs
    \<and> subseq (log_vector_writes T v2) zs
    \<and> length zs = (length v1 + 2) + (length v2 + 2)
    \<and> count_list (concat zs) (CHR 0x0A) = 2"
proof (intro conjI)
  show "run_writes out zs = out @ concat zs"
    by (rule run_writes_concat)
  from assms show "subseq (log_vector_writes T v1) zs"
    by (rule shuffles_subseq_left)
  from assms show "subseq (log_vector_writes T v2) zs"
    by (rule shuffles_subseq_right)
  show "length zs = (length v1 + 2) + (length v2 + 2)"
    using length_shuffles [OF assms] by (simp add: log_vector_writes_def)
  from assms show "count_list (concat zs) (CHR 0x0A) = 2"
    by (simp add: shuffles_count_concat log_vector_writes_newline)
qed

text \<open>
  Two calls, with the vectors 1 and 2, whose writes alternate: the brackets and the
  elements of the two lines are mixed.
\<close>

theorem log_vector_concurrent_writes_witness:
  "[''['', ''['', ''1,'', ''2,'', '']'' @ [CHR 0x0A], '']'' @ [CHR 0x0A]]
     \<in> shuffles (log_vector_writes T_int [1]) (log_vector_writes T_int [2])
   \<and> run_writes []
        [''['', ''['', ''1,'', ''2,'', '']'' @ [CHR 0x0A], '']'' @ [CHR 0x0A]]
       = ''[[1,2,]'' @ [CHR 0x0A] @ '']'' @ [CHR 0x0A]
   \<and> count_list (''[[1,2,]'' @ [CHR 0x0A] @ '']'' @ [CHR 0x0A]) (CHR 0x0A) = 2"
proof -
  have h: "[''['', ''['', ''1,'', ''2,'', '']'' @ [CHR 0x0A], '']'' @ [CHR 0x0A]]
     \<in> shuffles (log_vector_writes T_int [1]) (log_vector_writes T_int [2])"
    by (simp add: log_vector_writes_def d_comma_text_def T_int_def dec_int_def
        digit_char_def dec_nat.simps Cons_in_shuffles_iff)
  show ?thesis
    using h log_vector_concurrent_writes [OF h, of "[]"] by simp
qed

text \<open>
  The lines of concurrent calls are not written atomically. In this interleaving of the
  calls for the vectors 1 and 2 the text written is neither the first line followed by
  the second nor the second followed by the first: the characters of the two lines are
  mixed.
\<close>

theorem log_vector_atomic_line_counterexample:
  "[''['', ''['', ''1,'', ''2,'', '']'' @ [CHR 0x0A], '']'' @ [CHR 0x0A]]
     \<in> shuffles (log_vector_writes T_int [1]) (log_vector_writes T_int [2])
   \<and> run_writes []
        [''['', ''['', ''1,'', ''2,'', '']'' @ [CHR 0x0A], '']'' @ [CHR 0x0A]]
       = ''[[1,2,]'' @ [CHR 0x0A] @ '']'' @ [CHR 0x0A]
   \<and> log_vector T_int [2] (log_vector T_int [1] [])
       = ''[1,]'' @ [CHR 0x0A] @ ''[2,]'' @ [CHR 0x0A]
   \<and> log_vector T_int [1] (log_vector T_int [2] [])
       = ''[2,]'' @ [CHR 0x0A] @ ''[1,]'' @ [CHR 0x0A]
   \<and> run_writes []
        [''['', ''['', ''1,'', ''2,'', '']'' @ [CHR 0x0A], '']'' @ [CHR 0x0A]]
       \<noteq> log_vector T_int [2] (log_vector T_int [1] [])
   \<and> run_writes []
        [''['', ''['', ''1,'', ''2,'', '']'' @ [CHR 0x0A], '']'' @ [CHR 0x0A]]
       \<noteq> log_vector T_int [1] (log_vector T_int [2] [])"
  by (simp add: run_writes_concat log_vector_text log_vector_writes_def
      d_comma_text_def T_int_def dec_int_def digit_char_def dec_nat.simps
      Cons_in_shuffles_iff)

end
